theory Spec2Isabelle
  imports Main "HOL-Library.AList"
begin

section \<open>Pattern Matcher (\<^verbatim>\<open>McpServerManager.matchesPattern\<close>)\<close>

text \<open>
  Tool names and patterns are JavaScript strings. They are modelled as \<^typ>\<open>string\<close>,
  one \<^typ>\<open>char\<close> per code unit of the ASCII range; case folding of the regular
  expression engine is modelled on the ASCII letters (a code unit outside \<open>a..z\<close> only
  equals itself).
\<close>

definition bslash :: char where
  "bslash = CHR 0x5C"

text \<open>
  \<^verbatim>\<open>pattern.replace(/[+?^${}()|[\]\\]/g, '\\$&')\<close>: every character of the class
  is prefixed with a backslash. The class holds
  \<^verbatim>\<open>+ ? ^ $ { } ( ) | [ ] \<close> and the backslash.
\<close>

definition escape_class :: "char list" where
  "escape_class = ''+?^${}()|[]'' @ [bslash]"

definition escape_specials :: "string \<Rightarrow> string" where
  "escape_specials p = concat (map (\<lambda>c. if c \<in> set escape_class then [bslash, c] else [c]) p)"

text \<open>\<^verbatim>\<open>.replace(/\./g, '\\.')\<close>\<close>

definition escape_dots :: "string \<Rightarrow> string" where
  "escape_dots p = concat (map (\<lambda>c. if c = CHR ''.'' then [bslash, CHR ''.''] else [c]) p)"

text \<open>\<^verbatim>\<open>.replace(/\*/g, '.*')\<close>\<close>

definition replace_stars :: "string \<Rightarrow> string" where
  "replace_stars p = concat (map (\<lambda>c. if c = CHR ''*'' then ''.*'' else [c]) p)"

text \<open>\<^verbatim>\<open>.replace(/\?/g, '.')\<close>\<close>

definition replace_qmarks :: "string \<Rightarrow> string" where
  "replace_qmarks p = concat (map (\<lambda>c. if c = CHR ''?'' then ''.'' else [c]) p)"

text \<open>The four replacements, chained in the order of the source.\<close>

definition regexPattern :: "string \<Rightarrow> string" where
  "regexPattern pattern = replace_qmarks (replace_stars (escape_dots (escape_specials pattern)))"

subsection \<open>The fragment of \<^verbatim>\<open>RegExp\<close> that the source text can reach\<close>

text \<open>
  \<^verbatim>\<open>new RegExp(`^${regexPattern}$`, 'i')\<close>, without the flags \<^verbatim>\<open>s\<close>,
  \<^verbatim>\<open>m\<close>, \<^verbatim>\<open>u\<close> and \<^verbatim>\<open>g\<close>: an atom is a literal character (written
  plainly, or as a syntax character behind a backslash) or the dot, which stands for any
  character but a line terminator; an atom may carry the quantifier \<^verbatim>\<open>*\<close>.
  Anything else (groups, classes, other quantifiers, class escapes) is outside the
  fragment and parses to \<^const>\<open>None\<close>.
\<close>

datatype rx_atom = Lit char | AnyChar

datatype rx_term = Once rx_atom | Star rx_atom

definition syntax_chars :: "char list" where
  "syntax_chars = ''^$.*+?()[]{}|'' @ [bslash]"

fun quantified :: "rx_atom \<Rightarrow> string \<Rightarrow> rx_term \<times> string" where
  "quantified a [] = (Once a, [])"
| "quantified a (c # cs) = (if c = CHR ''*'' then (Star a, cs) else (Once a, c # cs))"

lemma quantified_length: "length (snd (quantified a cs)) \<le> length cs"
  by (cases cs) auto

lemma quantified_length_Suc: "length (snd (quantified a cs)) \<le> Suc (length cs)"
  by (cases cs) auto

function parse_regex :: "string \<Rightarrow> rx_term list option" where
  "parse_regex [] = Some []"
| "parse_regex (c # cs) =
     (if c = bslash then
        (case cs of
           [] \<Rightarrow> None
         | d # ds \<Rightarrow>
             if d \<in> set syntax_chars
             then map_option ((#) (fst (quantified (Lit d) ds))) (parse_regex (snd (quantified (Lit d) ds)))
             else None)
      else if c = CHR ''.'' then
        map_option ((#) (fst (quantified AnyChar cs))) (parse_regex (snd (quantified AnyChar cs)))
      else if c \<in> set syntax_chars then None
      else map_option ((#) (fst (quantified (Lit c) cs))) (parse_regex (snd (quantified (Lit c) cs))))"
  by pat_completeness auto
termination
  by (relation "measure length") (auto simp: less_Suc_eq_le quantified_length quantified_length_Suc)

text \<open>
  \<^verbatim>\<open>Canonicalize\<close> under the flag \<^verbatim>\<open>i\<close>: both characters are upper-cased
  before they are compared.
\<close>

definition canonicalize :: "char \<Rightarrow> char" where
  "canonicalize c =
     (case map_of (zip ''abcdefghijklmnopqrstuvwxyz'' ''ABCDEFGHIJKLMNOPQRSTUVWXYZ'') c of
        Some u \<Rightarrow> u
      | None \<Rightarrow> c)"

definition line_terminator :: "char \<Rightarrow> bool" where
  "line_terminator c = (c = CHR 0x0A \<or> c = CHR 0x0D)"

fun atom_matches :: "rx_atom \<Rightarrow> char \<Rightarrow> bool" where
  "atom_matches (Lit c) d = (canonicalize c = canonicalize d)"
| "atom_matches AnyChar d = (\<not> line_terminator d)"

text \<open>
  \<^verbatim>\<open>regex.test(toolName)\<close> for a pattern anchored at both ends: the whole string is
  consumed by the whole term list. The engine backtracks over every split of a starred
  atom, so the test succeeds exactly when some split does.
\<close>

fun rx_match :: "rx_term list \<Rightarrow> string \<Rightarrow> bool" where
  "rx_match [] s = (s = [])"
| "rx_match (Once a # r) [] = False"
| "rx_match (Once a # r) (d # ds) = (atom_matches a d \<and> rx_match r ds)"
| "rx_match (Star a # r) [] = rx_match r []"
| "rx_match (Star a # r) (d # ds) =
     (rx_match r (d # ds) \<or> (atom_matches a d \<and> rx_match (Star a # r) ds))"

definition endsWith :: "string \<Rightarrow> char \<Rightarrow> bool" where
  "endsWith s c = (s \<noteq> [] \<and> last s = c)"

definition startsWith :: "string \<Rightarrow> string \<Rightarrow> bool" where
  "startsWith s p = (take (length p) s = p)"

text \<open>
  \<^verbatim>\<open>matchesPattern(toolName, pattern)\<close>. The regular expression built from a pattern
  always parses (lemma \<open>parse_regexPattern\<close> below), so the branch \<^const>\<open>None\<close>,
  where \<^verbatim>\<open>new RegExp\<close> would throw, is never taken.
\<close>

definition matchesPattern :: "string \<Rightarrow> string \<Rightarrow> bool" where
  "matchesPattern toolName pattern =
     (if endsWith pattern CHR ''.'' then startsWith toolName pattern
      else (case parse_regex (regexPattern pattern) of
              None \<Rightarrow> False
            | Some regex \<Rightarrow> rx_match regex toolName))"

section \<open>Data model\<close>

text \<open>
  Modelled from the spec: the type \<^verbatim>\<open>ToolFilterConfig\<close> of \<^verbatim>\<open>types.ts\<close>, whose
  declaration is not among the sources. Section 6 of the spec gives it the shape
  \<^verbatim>\<open>{include?: [string], exclude?: [string]}\<close>, and the manager reads exactly these two
  optional fields.
\<close>

record ToolFilterConfig =
  include_pats :: "string list option"
  exclude_pats :: "string list option"

text \<open>
  A tool descriptor as the filter sees it: the field \<^verbatim>\<open>name\<close>, which may be
  missing, and the rest of the descriptor, which is carried along untouched.
\<close>

record tool =
  name :: "string option"
  description :: string

text \<open>
  The answer of \<^verbatim>\<open>client.listTools()\<close> is untyped: either it has an array field
  \<^verbatim>\<open>tools\<close> (next to other fields), or it has not.
\<close>

datatype tools_response = NoToolArray string | ToolsResponse "tool list" string

text \<open>
  Modelled from the spec: the types \<^verbatim>\<open>ConnectMcpParams\<close>, \<^verbatim>\<open>McpServerConfig\<close> and
  \<^verbatim>\<open>McpConfig\<close> of \<^verbatim>\<open>types.ts\<close>, whose declarations are not among the sources.
  Section 6 of the spec gives an entry of \<^verbatim>\<open>mcpServers\<close> the shape
  \<^verbatim>\<open>{command, args?, env?, filters?}\<close> and the document an optional
  \<^verbatim>\<open>globalFilters\<close>; the manager reads these fields and no others. The entries of
  \<^verbatim>\<open>mcpServers\<close> are listed in the order of \<^verbatim>\<open>Object.entries\<close>.
\<close>

record McpServerConfig =
  command :: string
  args :: "string list option"
  env :: "(string \<times> string) list option"
  filters :: "ToolFilterConfig option"

record McpConfig =
  mcpServers :: "(string \<times> McpServerConfig) list option"
  config_globalFilters :: "ToolFilterConfig option"

record StdioClientTransport =
  transport_command :: string
  transport_args :: "string list"
  transport_env :: "(string \<times> string) list"

text \<open>
  A \<^verbatim>\<open>Client\<close> of the SDK: the name it was created with and the transport it is
  connected through.
\<close>

record Client =
  client_name :: string
  client_transport :: StdioClientTransport

text \<open>
  A JavaScript \<^verbatim>\<open>Map\<close> is an association list with \<^const>\<open>map_of\<close> for
  \<^verbatim>\<open>get\<close>, \<^const>\<open>AList.update\<close> for \<^verbatim>\<open>set\<close> (a known key keeps its place, a
  new one goes last) and \<^const>\<open>AList.delete\<close> for \<^verbatim>\<open>delete\<close>; the order of the
  list is the iteration order of the map.
\<close>

record McpServerManager =
  clients :: "(string \<times> Client) list"
  configPath :: "string option"
  serverFilters :: "(string \<times> ToolFilterConfig) list"
  globalFilters :: "ToolFilterConfig option"

text \<open>
  Everything outside the manager: the environment and arguments of the process, the file
  system, and what the SDK answers for a given client. An answer \<^term>\<open>Some msg\<close> of
  \<open>connect_outcome\<close> or \<open>close_outcome\<close>, and an answer \<^term>\<open>Inl msg\<close> of the
  others, is an exception thrown with that message.
\<close>

record world =
  process_env :: "(string \<times> string) list"
  process_argv :: "string list"
  cwd_config :: string
  existsSync :: "string \<Rightarrow> bool"
  readConfig :: "string \<Rightarrow> string + McpConfig"
  connect_outcome :: "Client \<Rightarrow> string option"
  listTools_outcome :: "Client \<Rightarrow> string + tools_response"
  callTool_outcome :: "Client \<Rightarrow> string \<Rightarrow> (string \<times> string) list \<Rightarrow> string + string"
  close_outcome :: "Client \<Rightarrow> string option"

text \<open>The errors the manager throws, one constructor per message of the source.\<close>

datatype error =
    AlreadyConnected string
  | NotConnected string
  | ConfigPathNotSpecified
  | ConfigLoadFailed string string
  | ConnectFailed string string
  | DisconnectFailed string string
  | ClientError string

text \<open>Truthiness of an optional string: \<^verbatim>\<open>undefined\<close> and \<^verbatim>\<open>""\<close> are falsy.\<close>

definition truthy :: "string option \<Rightarrow> bool" where
  "truthy s = (case s of None \<Rightarrow> False | Some v \<Rightarrow> v \<noteq> [])"

section \<open>Filter Engine\<close>

text \<open>\<^verbatim>\<open>filterConfig.include && filterConfig.include.length > 0\<close>\<close>

definition active :: "string list option \<Rightarrow> bool" where
  "active ps = (case ps of None \<Rightarrow> False | Some l \<Rightarrow> l \<noteq> [])"

definition patterns :: "string list option \<Rightarrow> string list" where
  "patterns ps = (case ps of None \<Rightarrow> [] | Some l \<Rightarrow> l)"

text \<open>
  The callback of the include filter: \<^verbatim>\<open>if (!tool.name) return false\<close>, then
  \<^verbatim>\<open>include.some(pattern => matchesPattern(tool.name, pattern))\<close>.
\<close>

definition include_keeps :: "string list \<Rightarrow> tool \<Rightarrow> bool" where
  "include_keeps inc t =
     (if \<not> truthy (name t) then False
      else list_ex (\<lambda>pattern. matchesPattern (the (name t)) pattern) inc)"

text \<open>
  The callback of the exclude filter: \<^verbatim>\<open>if (!tool.name) return true\<close>, then
  \<^verbatim>\<open>!exclude.some(pattern => matchesPattern(tool.name, pattern))\<close>.
\<close>

definition exclude_keeps :: "string list \<Rightarrow> tool \<Rightarrow> bool" where
  "exclude_keeps exc t =
     (if \<not> truthy (name t) then True
      else \<not> list_ex (\<lambda>pattern. matchesPattern (the (name t)) pattern) exc)"

definition filterToolsByConfig :: "tool list \<Rightarrow> ToolFilterConfig \<Rightarrow> tool list" where
  "filterToolsByConfig tools filterConfig =
     (if tools = [] then tools
      else
        let filteredTools = tools;
            filteredTools =
              (if active (include_pats filterConfig)
               then filter (include_keeps (patterns (include_pats filterConfig))) filteredTools
               else filteredTools);
            filteredTools =
              (if active (exclude_pats filterConfig)
               then filter (exclude_keeps (patterns (exclude_pats filterConfig))) filteredTools
               else filteredTools)
        in filteredTools)"

definition applyFilters :: "McpServerManager \<Rightarrow> tools_response \<Rightarrow> string \<Rightarrow> tools_response" where
  "applyFilters m tools serverName =
     (case tools of
        NoToolArray payload \<Rightarrow> tools
      | ToolsResponse ts other \<Rightarrow>
          let filteredTools = ts;
              filteredTools =
                (case map_of (serverFilters m) serverName of
                   Some sf \<Rightarrow> filterToolsByConfig filteredTools sf
                 | None \<Rightarrow> filteredTools);
              filteredTools =
                (case globalFilters m of
                   Some gf \<Rightarrow> filterToolsByConfig filteredTools gf
                 | None \<Rightarrow> filteredTools)
          in ToolsResponse filteredTools other)"

fun response_tools :: "tools_response \<Rightarrow> tool list" where
  "response_tools (NoToolArray payload) = []"
| "response_tools (ToolsResponse ts other) = ts"

section \<open>Connection Registry and Hub Manager\<close>

definition getClient :: "McpServerManager \<Rightarrow> string \<Rightarrow> error + Client" where
  "getClient m serverName =
     (case map_of (clients m) serverName of
        None \<Rightarrow> Inl (NotConnected serverName)
      | Some client \<Rightarrow> Inr client)"

text \<open>\<^verbatim>\<open>Object.assign(env, params.env)\<close>: each key of the source is set on the target.\<close>

definition object_assign :: "(string \<times> string) list \<Rightarrow> (string \<times> string) list \<Rightarrow> (string \<times> string) list" where
  "object_assign target source = foldl (\<lambda>e kv. AList.update (fst kv) (snd kv) e) target source"

text \<open>
  The client that \<^verbatim>\<open>connectToServer\<close> builds before it connects: the environment of
  the process with the overrides of the parameters on top, the transport, and the client
  named after the server.
\<close>

definition new_client :: "world \<Rightarrow> string \<Rightarrow> McpServerConfig \<Rightarrow> Client" where
  "new_client w serverName params =
     (let e = object_assign (process_env w) (case env params of None \<Rightarrow> [] | Some pe \<Rightarrow> pe);
          transport = \<lparr>transport_command = command params,
                       transport_args = (case args params of None \<Rightarrow> [] | Some a \<Rightarrow> a),
                       transport_env = e\<rparr>
      in \<lparr>client_name = ''mcp-client-'' @ serverName, client_transport = transport\<rparr>)"

definition connectToServer ::
  "world \<Rightarrow> McpServerManager \<Rightarrow> string \<Rightarrow> McpServerConfig \<Rightarrow> (error + unit) \<times> McpServerManager" where
  "connectToServer w m serverName params =
     (if map_of (clients m) serverName \<noteq> None then (Inl (AlreadyConnected serverName), m)
      else
        let client = new_client w serverName params
        in (case connect_outcome w client of
              None \<Rightarrow> (Inr (), m\<lparr>clients := AList.update serverName client (clients m)\<rparr>)
            | Some msg \<Rightarrow> (Inl (ConnectFailed serverName msg), m)))"

definition listTools :: "world \<Rightarrow> McpServerManager \<Rightarrow> string \<Rightarrow> error + tools_response" where
  "listTools w m serverName =
     (case getClient m serverName of
        Inl err \<Rightarrow> Inl err
      | Inr client \<Rightarrow>
          (case listTools_outcome w client of
             Inl msg \<Rightarrow> Inl (ClientError msg)
           | Inr tools \<Rightarrow> Inr (applyFilters m tools serverName)))"

definition callTool ::
  "world \<Rightarrow> McpServerManager \<Rightarrow> string \<Rightarrow> string \<Rightarrow> (string \<times> string) list \<Rightarrow> error + string" where
  "callTool w m serverName toolName toolArgs =
     (case getClient m serverName of
        Inl err \<Rightarrow> Inl err
      | Inr client \<Rightarrow>
          (case callTool_outcome w client toolName toolArgs of
             Inl msg \<Rightarrow> Inl (ClientError msg)
           | Inr res \<Rightarrow> Inr res))"

definition getConnectedServers :: "McpServerManager \<Rightarrow> string list" where
  "getConnectedServers m = map fst (clients m)"

definition disconnectServer ::
  "world \<Rightarrow> McpServerManager \<Rightarrow> string \<Rightarrow> (error + unit) \<times> McpServerManager" where
  "disconnectServer w m serverName =
     (case map_of (clients m) serverName of
        None \<Rightarrow> (Inl (NotConnected serverName), m)
      | Some client \<Rightarrow>
          (case close_outcome w client of
             None \<Rightarrow> (Inr (), m\<lparr>clients := AList.delete serverName (clients m)\<rparr>)
           | Some msg \<Rightarrow> (Inl (DisconnectFailed serverName msg), m)))"

text \<open>
  The loop of \<^verbatim>\<open>disconnectAll\<close> over the snapshot of names: an exception of
  \<^verbatim>\<open>disconnectServer\<close> leaves the loop.
\<close>

fun disconnectEach ::
  "world \<Rightarrow> McpServerManager \<Rightarrow> string list \<Rightarrow> (error + unit) \<times> McpServerManager" where
  "disconnectEach w m [] = (Inr (), m)"
| "disconnectEach w m (serverName # serverNames) =
     (case disconnectServer w m serverName of
        (Inl err, m') \<Rightarrow> (Inl err, m')
      | (Inr u, m') \<Rightarrow> disconnectEach w m' serverNames)"

definition disconnectAll :: "world \<Rightarrow> McpServerManager \<Rightarrow> (error + unit) \<times> McpServerManager" where
  "disconnectAll w m = disconnectEach w m (getConnectedServers m)"

text \<open>
  \<^verbatim>\<open>findConfigPath()\<close>: the environment variable, then the command-line argument,
  then the two default paths.
\<close>

fun findIndex :: "('a \<Rightarrow> bool) \<Rightarrow> 'a list \<Rightarrow> nat option" where
  "findIndex P [] = None"
| "findIndex P (x # xs) = (if P x then Some 0 else map_option Suc (findIndex P xs))"

definition findConfigPath :: "world \<Rightarrow> string option" where
  "findConfigPath w =
     (if truthy (map_of (process_env w) ''MCP_CONFIG_PATH'')
      then map_of (process_env w) ''MCP_CONFIG_PATH''
      else
        (case findIndex (\<lambda>arg. arg = ''--config-path'') (process_argv w) of
           Some i \<Rightarrow>
             if i + 1 < length (process_argv w) then Some (process_argv w ! (i + 1))
             else find (existsSync w) [''./mcp-config.json'', cwd_config w]
         | None \<Rightarrow> find (existsSync w) [''./mcp-config.json'', cwd_config w]))"

text \<open>
  The body of the loop of \<^verbatim>\<open>loadFromConfig\<close> for one entry of
  \<^verbatim>\<open>mcpServers\<close>: a registered name is skipped; otherwise the entry's filters are
  stored, the connection is attempted, and an exception is caught and logged.
\<close>

definition loadEntry :: "world \<Rightarrow> McpServerManager \<Rightarrow> string \<times> McpServerConfig \<Rightarrow> McpServerManager" where
  "loadEntry w m entry =
     (let serverName = fst entry; serverConfig = snd entry in
      if map_of (clients m) serverName \<noteq> None then m
      else
        let m1 = (case filters serverConfig of
                    Some f \<Rightarrow> m\<lparr>serverFilters := AList.update serverName f (serverFilters m)\<rparr>
                  | None \<Rightarrow> m)
        in snd (connectToServer w m1 serverName serverConfig))"

fun loadEntries :: "world \<Rightarrow> McpServerManager \<Rightarrow> (string \<times> McpServerConfig) list \<Rightarrow> McpServerManager" where
  "loadEntries w m [] = m"
| "loadEntries w m (entry # serverEntries) = loadEntries w (loadEntry w m entry) serverEntries"

text \<open>\<^verbatim>\<open>const path = configPath || this.configPath; if (!path) throw ...\<close>\<close>

definition resolvePath :: "McpServerManager \<Rightarrow> string option \<Rightarrow> string option" where
  "resolvePath m cp =
     (let path = (if truthy cp then cp else configPath m) in
      if truthy path then path else None)"

definition loadFromConfig ::
  "world \<Rightarrow> McpServerManager \<Rightarrow> string option \<Rightarrow> (error + unit) \<times> McpServerManager" where
  "loadFromConfig w m cp =
     (case resolvePath m cp of
        None \<Rightarrow> (Inl ConfigPathNotSpecified, m)
      | Some path \<Rightarrow>
          (case readConfig w path of
             Inl msg \<Rightarrow> (Inl (ConfigLoadFailed path msg), m)
           | Inr config \<Rightarrow>
               let m1 = (case config_globalFilters config of
                           Some g \<Rightarrow> m\<lparr>globalFilters := Some g\<rparr>
                         | None \<Rightarrow> m)
               in (case mcpServers config of
                     None \<Rightarrow> (Inr (), m1)
                   | Some serverEntries \<Rightarrow>
                       if serverEntries = [] then (Inr (), m1)
                       else (Inr (), loadEntries w m1 serverEntries))))"

text \<open>
  The constructor. Its options are all optional. The load it starts is not awaited by
  the caller; the state given here is the one reached when that load has run to its end
  (an exception of the load is only logged).
\<close>

record ManagerOptions =
  options_configPath :: "string option"
  options_autoLoad :: "bool option"
  options_globalFilters :: "ToolFilterConfig option"

definition new_McpServerManager :: "world \<Rightarrow> ManagerOptions option \<Rightarrow> McpServerManager" where
  "new_McpServerManager w options =
     (let cp = (case options of None \<Rightarrow> None | Some opts \<Rightarrow> options_configPath opts);
          m = \<lparr>clients = [],
               configPath = (if truthy cp then cp else findConfigPath w),
               serverFilters = [],
               globalFilters = (case options of None \<Rightarrow> None | Some opts \<Rightarrow> options_globalFilters opts)\<rparr>
      in if (case options of None \<Rightarrow> False | Some opts \<Rightarrow> options_autoLoad opts = Some True)
            \<and> truthy (configPath m)
         then snd (loadFromConfig w m (configPath m))
         else m)"

section \<open>Auxiliary definitions for the proofs\<close>

text \<open>What the four replacements of \<^const>\<open>regexPattern\<close> make of one character.\<close>

definition char_regex :: "char \<Rightarrow> string" where
  "char_regex c =
     (if c \<in> set escape_class then (if c = CHR ''?'' then [bslash, CHR ''.''] else [bslash, c])
      else if c = CHR ''.'' then [bslash, CHR ''.'']
      else if c = CHR ''*'' then ''.*''
      else [c])"

definition no_star_head :: "string \<Rightarrow> bool" where
  "no_star_head s = (case s of [] \<Rightarrow> True | c # cs \<Rightarrow> c \<noteq> CHR ''*'')"

subsection \<open>A concrete hub\<close>

text \<open>
  A hub with children \<open>a\<close> and \<open>b\<close>, each offering the tools \<open>foo\<close> and \<open>bar\<close>.
  In \<open>example_world failing\<close> the clients whose names are listed in \<open>failing\<close>
  cannot be connected or closed; everything else succeeds. The configuration file
  \<open>hub.json\<close> has global filters, \<open>plain.json\<close> has none.
\<close>

definition example_client :: "string \<Rightarrow> Client" where
  "example_client serverName =
     \<lparr>client_name = ''mcp-client-'' @ serverName,
      client_transport = \<lparr>transport_command = ''node'', transport_args = [], transport_env = []\<rparr>\<rparr>"

definition tool_foo :: tool where
  "tool_foo = \<lparr>name = Some ''foo'', description = ''first tool''\<rparr>"

definition tool_bar :: tool where
  "tool_bar = \<lparr>name = Some ''bar'', description = ''second tool''\<rparr>"

definition tool_nameless :: tool where
  "tool_nameless = \<lparr>name = None, description = ''no name''\<rparr>"

definition exclude_foo :: ToolFilterConfig where
  "exclude_foo = \<lparr>include_pats = None, exclude_pats = Some [''foo'']\<rparr>"

definition include_foo :: ToolFilterConfig where
  "include_foo = \<lparr>include_pats = Some [''foo''], exclude_pats = None\<rparr>"

definition example_server :: "ToolFilterConfig option \<Rightarrow> McpServerConfig" where
  "example_server f = \<lparr>command = ''node'', args = None, env = None, filters = f\<rparr>"

definition example_config :: McpConfig where
  "example_config =
     \<lparr>mcpServers = Some [(''a'', example_server (Some exclude_foo)), (''b'', example_server None)],
      config_globalFilters = Some exclude_foo\<rparr>"

definition plain_config :: McpConfig where
  "plain_config = \<lparr>mcpServers = Some [(''b'', example_server None)], config_globalFilters = None\<rparr>"

definition example_world :: "string list \<Rightarrow> world" where
  "example_world failing =
     \<lparr>process_env = [],
      process_argv = [],
      cwd_config = ''/srv/mcp-config.json'',
      existsSync = (\<lambda>path. False),
      readConfig = (\<lambda>path. if path = ''hub.json'' then Inr example_config
                           else if path = ''plain.json'' then Inr plain_config
                           else Inl ''ENOENT''),
      connect_outcome = (\<lambda>client. if client_name client \<in> set failing then Some ''spawn ENOENT'' else None),
      listTools_outcome = (\<lambda>client. Inr (ToolsResponse [tool_foo, tool_bar] [])),
      callTool_outcome = (\<lambda>client toolName toolArgs. Inr (''called '' @ toolName)),
      close_outcome = (\<lambda>client. if client_name client \<in> set failing then Some ''close failed'' else None)\<rparr>"

definition example_manager :: McpServerManager where
  "example_manager =
     \<lparr>clients = [(''a'', example_client ''a''), (''b'', example_client ''b'')],
      configPath = None,
      serverFilters = [(''a'', exclude_foo)],
      globalFilters = None\<rparr>"

definition empty_manager :: McpServerManager where
  "empty_manager = \<lparr>clients = [], configPath = None, serverFilters = [], globalFilters = None\<rparr>"

text \<open>
  Options as the entry point passes them: the load is started at construction, and the
  global filters are the ones parsed from the command line.
\<close>

definition startup_options :: "string \<Rightarrow> ManagerOptions" where
  "startup_options path =
     \<lparr>options_configPath = Some path, options_autoLoad = Some True,
      options_globalFilters = Some include_foo\<rparr>"

section \<open>Properties of the Pattern Matcher\<close>

lemmas matcher_defs =
  matchesPattern_def endsWith_def startsWith_def regexPattern_def escape_specials_def
  escape_class_def escape_dots_def replace_stars_def replace_qmarks_def bslash_def
  syntax_chars_def canonicalize_def line_terminator_def

lemma concat_map_concat_map:
  "concat (map f (concat (map g xs))) = concat (map (\<lambda>x. concat (map f (g x))) xs)"
  by (induction xs) simp_all

lemma regexPattern_char_regex: "regexPattern p = concat (map char_regex p)"
  unfolding regexPattern_def replace_qmarks_def replace_stars_def escape_dots_def
    escape_specials_def concat_map_concat_map
  by (rule arg_cong [where f = concat], rule map_cong, simp,
      simp add: char_regex_def escape_class_def bslash_def)

lemma quantified_no_star: "no_star_head s \<Longrightarrow> quantified a s = (Once a, s)"
  by (cases s) (auto simp: no_star_head_def)

lemma no_star_head_char_regex: "no_star_head (char_regex c @ s)"
  by (auto simp: no_star_head_def char_regex_def bslash_def)

lemma parse_char_regex:
  assumes "no_star_head s" and "parse_regex s = Some r"
  shows "\<exists>r'. parse_regex (char_regex c @ s) = Some r'"
  using assms
  by (auto simp: char_regex_def quantified_no_star escape_class_def syntax_chars_def bslash_def)

text \<open>
  The regular expression built from any pattern lies in the modelled fragment:
  \<^verbatim>\<open>new RegExp\<close> never throws in \<^verbatim>\<open>matchesPattern\<close>.
\<close>

lemma parse_regexPattern: "\<exists>regex. parse_regex (regexPattern p) = Some regex"
proof -
  have "\<exists>r. parse_regex (concat (map char_regex p)) = Some r
          \<and> no_star_head (concat (map char_regex p))"
  proof (induction p)
    case Nil
    then show ?case by (simp add: no_star_head_def)
  next
    case (Cons c p)
    then show ?case
      using parse_char_regex [of "concat (map char_regex p)" _ c]
      by (auto simp: no_star_head_char_regex)
  qed
  then show ?thesis by (simp add: regexPattern_char_regex)
qed

lemma canonicalize_dot: "(canonicalize CHR ''.'' = canonicalize a) = (a = CHR ''.'')"
  by (auto simp: canonicalize_def split: option.splits if_splits)

text \<open>
  The first replacement puts a backslash before every \<^verbatim>\<open>?\<close>, and the last one then
  turns \<^verbatim>\<open>\?\<close> into \<^verbatim>\<open>\.\<close>: the pattern \<^verbatim>\<open>?\<close> matches the one-character
  name \<^verbatim>\<open>.\<close> and nothing else.
\<close>

lemma qmark_only_dot: "matchesPattern t ''?'' = (t = ''.'')"
proof (cases t)
  case Nil
  then show ?thesis by (simp add: matcher_defs)
next
  case (Cons a list)
  then show ?thesis
    by (cases list)
      (simp_all add: matchesPattern_def endsWith_def regexPattern_def escape_specials_def
        escape_class_def escape_dots_def replace_stars_def replace_qmarks_def bslash_def
        syntax_chars_def canonicalize_dot)
qed

text \<open>
  Claim C1. The spec says that \<^verbatim>\<open>?\<close> matches exactly one arbitrary character, so
  that \<^verbatim>\<open>matches("x", "?")\<close> is true and \<^verbatim>\<open>matches("xx", "?")\<close> is false. The code
  rejects \<^verbatim>\<open>x\<close> (and \<^verbatim>\<open>xx\<close>) and accepts only the dot.
\<close>

theorem qmark_rejects_letter:
  "\<not> matchesPattern ''x'' ''?'' \<and> \<not> matchesPattern ''xx'' ''?'' \<and> matchesPattern ''.'' ''?''"
  by (simp add: matcher_defs)

section \<open>Properties of the Filter Engine\<close>

lemmas example_defs =
  example_client_def tool_foo_def tool_bar_def tool_nameless_def exclude_foo_def
  include_foo_def example_server_def example_config_def plain_config_def example_world_def
  example_manager_def empty_manager_def

lemmas filter_defs =
  filterToolsByConfig_def active_def patterns_def include_keeps_def exclude_keeps_def
  truthy_def

lemma set_filterToolsByConfig: "set (filterToolsByConfig ts f) \<subseteq> set ts"
  by (auto simp: filterToolsByConfig_def Let_def)

text \<open>
  Claim C4. With a per-connection filter \<open>sf\<close> stored for the connection and a global
  filter \<open>gf\<close>, the result of \<^verbatim>\<open>applyFilters\<close> is the global stage applied to the
  output of the per-connection stage; a tool that the per-connection stage has removed is
  therefore absent from the final result, whatever the global filter would admit.
\<close>

theorem per_connection_stage_first:
  assumes "map_of (serverFilters m) serverName = Some sf" and "globalFilters m = Some gf"
  shows "applyFilters m (ToolsResponse ts other) serverName
           = ToolsResponse (filterToolsByConfig (filterToolsByConfig ts sf) gf) other
         \<and> (t \<notin> set (filterToolsByConfig ts sf)
              \<longrightarrow> t \<notin> set (response_tools (applyFilters m (ToolsResponse ts other) serverName)))"
  using assms set_filterToolsByConfig [of "filterToolsByConfig ts sf" gf]
  by (auto simp: applyFilters_def)

text \<open>
  The example of the spec: the per-connection filter excludes \<open>foo\<close>, the global filter
  includes only \<open>foo\<close> (and would admit it on its own), and \<open>foo\<close> is not in the result.
\<close>

theorem per_connection_stage_first_witness:
  "map_of (serverFilters (example_manager\<lparr>globalFilters := Some include_foo\<rparr>)) ''a''
     = Some exclude_foo
   \<and> globalFilters (example_manager\<lparr>globalFilters := Some include_foo\<rparr>) = Some include_foo
   \<and> tool_foo \<notin> set (filterToolsByConfig [tool_foo, tool_bar] exclude_foo)
   \<and> tool_foo \<in> set (filterToolsByConfig [tool_foo, tool_bar] include_foo)
   \<and> tool_foo \<notin> set (response_tools
        (applyFilters (example_manager\<lparr>globalFilters := Some include_foo\<rparr>)
           (ToolsResponse [tool_foo, tool_bar] []) ''a''))"
proof -
  let ?m = "example_manager\<lparr>globalFilters := Some include_foo\<rparr>"
  have sf: "map_of (serverFilters ?m) ''a'' = Some exclude_foo"
    by (simp add: example_manager_def)
  have gf: "globalFilters ?m = Some include_foo"
    by simp
  have out: "tool_foo \<notin> set (filterToolsByConfig [tool_foo, tool_bar] exclude_foo)"
    by (simp add: filter_defs matcher_defs example_defs)
  have inn: "tool_foo \<in> set (filterToolsByConfig [tool_foo, tool_bar] include_foo)"
    by (simp add: filter_defs matcher_defs example_defs)
  from per_connection_stage_first
         [OF sf gf, where t = tool_foo and ts = "[tool_foo, tool_bar]" and other = "[]"]
       out inn sf gf
  show ?thesis by blast
qed

text \<open>
  Claim C7. A tool descriptor without a discernible name (the field is missing or is the
  empty string) is dropped whenever an include list is active, and is kept whenever only
  an exclude list is active.
\<close>

theorem nameless_tool:
  assumes "\<not> truthy (name t)"
  shows "(active (include_pats f) \<longrightarrow> t \<notin> set (filterToolsByConfig ts f))
       \<and> (\<not> active (include_pats f) \<and> active (exclude_pats f) \<and> t \<in> set ts
            \<longrightarrow> t \<in> set (filterToolsByConfig ts f))"
  using assms
  by (auto simp: filterToolsByConfig_def Let_def include_keeps_def exclude_keeps_def)

text \<open>
  A nameless tool under the include list \<^verbatim>\<open>*\<close>, which admits every name, and under
  the exclude list \<^verbatim>\<open>*\<close>, which removes every name.
\<close>

theorem nameless_tool_witness:
  "\<not> truthy (name tool_nameless)
   \<and> active (include_pats \<lparr>include_pats = Some [''*''], exclude_pats = None\<rparr>)
   \<and> tool_nameless \<notin> set (filterToolsByConfig [tool_nameless, tool_foo]
        \<lparr>include_pats = Some [''*''], exclude_pats = None\<rparr>)
   \<and> \<not> active (include_pats \<lparr>include_pats = None, exclude_pats = Some [''*'']\<rparr>)
   \<and> active (exclude_pats \<lparr>include_pats = None, exclude_pats = Some [''*'']\<rparr>)
   \<and> tool_nameless \<in> set [tool_nameless, tool_foo]
   \<and> tool_nameless \<in> set (filterToolsByConfig [tool_nameless, tool_foo]
        \<lparr>include_pats = None, exclude_pats = Some [''*'']\<rparr>)
   \<and> filterToolsByConfig [tool_nameless, tool_foo] \<lparr>include_pats = None, exclude_pats = Some [''*'']\<rparr>
       = [tool_nameless]"
proof -
  have n: "\<not> truthy (name tool_nameless)"
    by (simp add: tool_nameless_def truthy_def)
  have ev: "filterToolsByConfig [tool_nameless, tool_foo] \<lparr>include_pats = None, exclude_pats = Some [''*'']\<rparr>
       = [tool_nameless]"
    by (simp add: filter_defs matcher_defs example_defs)
  from nameless_tool [OF n, where f = "\<lparr>include_pats = Some [''*''], exclude_pats = None\<rparr>"
        and ts = "[tool_nameless, tool_foo]"]
       nameless_tool [OF n, where f = "\<lparr>include_pats = None, exclude_pats = Some [''*'']\<rparr>"
        and ts = "[tool_nameless, tool_foo]"] n ev
  show ?thesis by (simp add: active_def)
qed

section \<open>Properties of the Connection Registry\<close>

lemmas registry_defs =
  getClient_def connectToServer_def new_client_def object_assign_def listTools_def
  callTool_def getConnectedServers_def disconnectServer_def disconnectAll_def
  applyFilters_def loadEntry_def resolvePath_def loadFromConfig_def
  new_McpServerManager_def findConfigPath_def

text \<open>
  Claim C5. When a name already maps to a handle, \<^verbatim>\<open>connectToServer\<close> under that name
  throws the error \<open>Already connected\<close> and leaves the registry as it was; the first
  handle still resolves.
\<close>

theorem second_connect_fails:
  assumes "map_of (clients m) serverName = Some client"
  shows "connectToServer w m serverName params = (Inl (AlreadyConnected serverName), m)
       \<and> getClient (snd (connectToServer w m serverName params)) serverName = Inr client"
  using assms by (simp add: connectToServer_def getClient_def)

theorem second_connect_fails_witness:
  "map_of (clients example_manager) ''a'' = Some (example_client ''a'')
   \<and> connectToServer (example_world []) example_manager ''a'' (example_server None)
       = (Inl (AlreadyConnected ''a''), example_manager)
   \<and> getClient (snd (connectToServer (example_world []) example_manager ''a'' (example_server None))) ''a''
       = Inr (example_client ''a'')"
proof -
  have h: "map_of (clients example_manager) ''a'' = Some (example_client ''a'')"
    by (simp add: example_manager_def)
  from second_connect_fails [OF h, of "example_world []" "example_server None"] h
  show ?thesis by blast
qed

text \<open>
  Claim C9. When closing the client throws, \<^verbatim>\<open>disconnectServer\<close> throws in turn and
  leaves the registry unchanged: the name still resolves to the same handle, and a later
  \<^verbatim>\<open>disconnectServer\<close>, in a world \<open>w'\<close> where the close succeeds, removes it.
\<close>

theorem failed_close_keeps_handle:
  assumes "map_of (clients m) serverName = Some client"
      and "close_outcome w client = Some msg"
  shows "disconnectServer w m serverName = (Inl (DisconnectFailed serverName msg), m)
       \<and> getClient (snd (disconnectServer w m serverName)) serverName = Inr client
       \<and> (close_outcome w' client = None \<longrightarrow>
            fst (disconnectServer w' (snd (disconnectServer w m serverName)) serverName) = Inr ()
          \<and> getClient (snd (disconnectServer w' (snd (disconnectServer w m serverName)) serverName)) serverName
              = Inl (NotConnected serverName))"
  using assms by (simp add: disconnectServer_def getClient_def delete_conv)

theorem failed_close_keeps_handle_witness:
  "map_of (clients example_manager) ''a'' = Some (example_client ''a'')
   \<and> close_outcome (example_world [''mcp-client-a'']) (example_client ''a'') = Some ''close failed''
   \<and> close_outcome (example_world []) (example_client ''a'') = None
   \<and> disconnectServer (example_world [''mcp-client-a'']) example_manager ''a''
       = (Inl (DisconnectFailed ''a'' ''close failed''), example_manager)
   \<and> getClient (snd (disconnectServer (example_world [''mcp-client-a'']) example_manager ''a'')) ''a''
       = Inr (example_client ''a'')
   \<and> fst (disconnectServer (example_world [])
        (snd (disconnectServer (example_world [''mcp-client-a'']) example_manager ''a'')) ''a'') = Inr ()"
proof -
  have h: "map_of (clients example_manager) ''a'' = Some (example_client ''a'')"
    by (simp add: example_manager_def)
  have c: "close_outcome (example_world [''mcp-client-a'']) (example_client ''a'') = Some ''close failed''"
    by (simp add: example_world_def example_client_def)
  have r: "close_outcome (example_world []) (example_client ''a'') = None"
    by (simp add: example_world_def example_client_def)
  from failed_close_keeps_handle [OF h c, where w' = "example_world []"] h c r
  show ?thesis by blast
qed

text \<open>
  Claim C3. The claim says that a successful \<^verbatim>\<open>disconnectServer\<close> removes both the
  handle and the filter rule of the name. The code deletes the handle only: in the
  concrete hub, after \<open>a\<close> is disconnected its filter rule is still stored.
\<close>

theorem disconnect_keeps_filter_rule:
  "map_of (clients example_manager) ''a'' = Some (example_client ''a'')
   \<and> fst (disconnectServer (example_world []) example_manager ''a'') = Inr ()
   \<and> map_of (serverFilters (snd (disconnectServer (example_world []) example_manager ''a''))) ''a''
       = Some exclude_foo"
  by (simp add: registry_defs example_defs)

text \<open>
  Claim C3, amended. A successful \<^verbatim>\<open>disconnectServer\<close> of a name with a handle
  removes that handle, so that the name no longer resolves, and changes nothing else:
  the other handles, the per-connection filter rules (the one of the disconnected name
  included) and the global filters stay as they were.
\<close>

theorem successful_disconnect_removes_handle:
  assumes "map_of (clients m) serverName = Some client"
      and "disconnectServer w m serverName = (Inr (), m')"
  shows "map_of (clients m') serverName = None
       \<and> getClient m' serverName = Inl (NotConnected serverName)
       \<and> (\<forall>other. other \<noteq> serverName \<longrightarrow> map_of (clients m') other = map_of (clients m) other)
       \<and> serverFilters m' = serverFilters m
       \<and> globalFilters m' = globalFilters m"
  using assms
  by (auto simp: disconnectServer_def getClient_def delete_conv split: option.splits)

theorem successful_disconnect_removes_handle_witness:
  "map_of (clients example_manager) ''a'' = Some (example_client ''a'')
   \<and> disconnectServer (example_world []) example_manager ''a''
       = (Inr (), example_manager\<lparr>clients := [(''b'', example_client ''b'')]\<rparr>)
   \<and> map_of (clients (example_manager\<lparr>clients := [(''b'', example_client ''b'')]\<rparr>)) ''a'' = None
   \<and> serverFilters (example_manager\<lparr>clients := [(''b'', example_client ''b'')]\<rparr>)
       = serverFilters example_manager"
proof -
  have h: "map_of (clients example_manager) ''a'' = Some (example_client ''a'')"
    by (simp add: example_manager_def)
  have d: "disconnectServer (example_world []) example_manager ''a''
       = (Inr (), example_manager\<lparr>clients := [(''b'', example_client ''b'')]\<rparr>)"
    by (simp add: registry_defs example_defs AList.delete_eq)
  from successful_disconnect_removes_handle [OF h d] h d show ?thesis by blast
qed

lemma disconnectEach_stops:
  assumes "map_of (clients m) serverName = Some client" and "close_outcome w client = Some msg"
  shows "disconnectEach w m (serverName # serverNames) = (Inl (DisconnectFailed serverName msg), m)"
  using assms by (simp add: disconnectServer_def)

text \<open>
  Claim C2. The claim says that \<^verbatim>\<open>disconnectAll\<close> attempts every registered name,
  also after one disconnect has failed. The loop of the code has no handler: in the
  concrete hub, where closing \<open>a\<close> fails and closing \<open>b\<close> would succeed,
  \<^verbatim>\<open>disconnectAll\<close> throws the error of \<open>a\<close> and leaves \<open>b\<close> registered, never
  having tried it.
\<close>

theorem disconnectAll_stops_at_first_failure:
  "disconnectAll (example_world [''mcp-client-a'']) example_manager
     = (Inl (DisconnectFailed ''a'' ''close failed''), example_manager)
   \<and> close_outcome (example_world [''mcp-client-a'']) (example_client ''b'') = None
   \<and> map_of (clients (snd (disconnectAll (example_world [''mcp-client-a'']) example_manager))) ''b''
       = Some (example_client ''b'')"
  by (simp add: registry_defs example_defs)

text \<open>
  Claim C6. The claim says that after a connect attempt whose session cannot be
  established the registry holds no partial entry for the name. \<^verbatim>\<open>loadFromConfig\<close>
  stores the filter rule of an entry before it connects and does not take it back: in the
  concrete hub, where \<open>a\<close> cannot be connected, \<open>a\<close> has no handle after the load but
  its filter rule is stored.
\<close>

theorem failed_connect_keeps_filter_rule:
  "map_of (clients empty_manager) ''a'' = None
   \<and> connect_outcome (example_world [''mcp-client-a''])
        (new_client (example_world [''mcp-client-a'']) ''a'' (example_server (Some exclude_foo)))
       = Some ''spawn ENOENT''
   \<and> fst (loadFromConfig (example_world [''mcp-client-a'']) empty_manager (Some ''hub.json'')) = Inr ()
   \<and> map_of (clients (snd (loadFromConfig (example_world [''mcp-client-a'']) empty_manager
        (Some ''hub.json'')))) ''a'' = None
   \<and> map_of (serverFilters (snd (loadFromConfig (example_world [''mcp-client-a'']) empty_manager
        (Some ''hub.json'')))) ''a'' = Some exclude_foo"
  by (simp add: registry_defs example_defs truthy_def Let_def)

text \<open>
  Claim C6, amended. When the session of a connect attempt for an unregistered name
  cannot be established, no handle is registered for the name: \<^verbatim>\<open>connectToServer\<close>
  throws and leaves the registry unchanged, and resolving the name or listing its tools
  fails with \<open>Not connected\<close>. The same holds when the attempt is the one
  \<^verbatim>\<open>loadFromConfig\<close> makes for an entry of the configuration, except that the filter
  rule of the entry, stored before the attempt, stays in the filter-rule mapping.
\<close>

theorem failed_connect_leaves_no_handle:
  assumes "map_of (clients m) serverName = None"
      and "connect_outcome w (new_client w serverName params) = Some msg"
  shows "connectToServer w m serverName params = (Inl (ConnectFailed serverName msg), m)
       \<and> getClient (snd (connectToServer w m serverName params)) serverName
           = Inl (NotConnected serverName)
       \<and> listTools w (snd (connectToServer w m serverName params)) serverName
           = Inl (NotConnected serverName)
       \<and> clients (loadEntry w m (serverName, params)) = clients m
       \<and> getClient (loadEntry w m (serverName, params)) serverName = Inl (NotConnected serverName)
       \<and> listTools w (loadEntry w m (serverName, params)) serverName = Inl (NotConnected serverName)
       \<and> serverFilters (loadEntry w m (serverName, params))
           = (case filters params of
                Some f \<Rightarrow> AList.update serverName f (serverFilters m)
              | None \<Rightarrow> serverFilters m)"
  using assms
  by (simp add: connectToServer_def getClient_def listTools_def loadEntry_def split: option.splits)

theorem failed_connect_leaves_no_handle_witness:
  "map_of (clients empty_manager) ''a'' = None
   \<and> connect_outcome (example_world [''mcp-client-a''])
        (new_client (example_world [''mcp-client-a'']) ''a'' (example_server (Some exclude_foo)))
       = Some ''spawn ENOENT''
   \<and> connectToServer (example_world [''mcp-client-a'']) empty_manager ''a''
        (example_server (Some exclude_foo))
       = (Inl (ConnectFailed ''a'' ''spawn ENOENT''), empty_manager)
   \<and> listTools (example_world [''mcp-client-a''])
        (loadEntry (example_world [''mcp-client-a'']) empty_manager
           (''a'', example_server (Some exclude_foo))) ''a''
       = Inl (NotConnected ''a'')
   \<and> serverFilters (loadEntry (example_world [''mcp-client-a'']) empty_manager
        (''a'', example_server (Some exclude_foo))) = [(''a'', exclude_foo)]"
proof -
  let ?w = "example_world [''mcp-client-a'']"
  have h: "map_of (clients empty_manager) ''a'' = None"
    by (simp add: empty_manager_def)
  have c: "connect_outcome ?w (new_client ?w ''a'' (example_server (Some exclude_foo)))
             = Some ''spawn ENOENT''"
    by (simp add: example_world_def new_client_def)
  have f: "filters (example_server (Some exclude_foo)) = Some exclude_foo"
    by (simp add: example_server_def)
  have s: "serverFilters empty_manager = []"
    by (simp add: empty_manager_def)
  from failed_connect_leaves_no_handle [OF h c] h c f s
  show ?thesis by simp
qed

section \<open>Properties of the Hub Manager\<close>

text \<open>
  Claim C8. \<^verbatim>\<open>callTool\<close> on a connected name hands the tool name and the arguments to
  the client and returns what the client answers; the stored per-connection and global
  filters play no part in it, so a tool that they hide from \<^verbatim>\<open>listTools\<close> can still
  be called.
\<close>

theorem callTool_ignores_filters:
  assumes "map_of (clients m) serverName = Some client"
  shows "callTool w m serverName toolName toolArgs
           = (case callTool_outcome w client toolName toolArgs of
                Inl msg \<Rightarrow> Inl (ClientError msg)
              | Inr res \<Rightarrow> Inr res)
       \<and> callTool w (m\<lparr>serverFilters := sf, globalFilters := gf\<rparr>) serverName toolName toolArgs
           = callTool w m serverName toolName toolArgs"
  using assms by (simp add: callTool_def getClient_def)

text \<open>
  In the concrete hub the filter of \<open>a\<close> hides \<open>foo\<close> from the listing, and the call of
  \<open>foo\<close> on \<open>a\<close> goes through.
\<close>

theorem callTool_ignores_filters_witness:
  "map_of (clients example_manager) ''a'' = Some (example_client ''a'')
   \<and> listTools (example_world []) example_manager ''a'' = Inr (ToolsResponse [tool_bar] [])
   \<and> callTool (example_world []) example_manager ''a'' ''foo'' [] = Inr ''called foo''"
proof -
  have h: "map_of (clients example_manager) ''a'' = Some (example_client ''a'')"
    by (simp add: example_manager_def)
  have l: "listTools (example_world []) example_manager ''a'' = Inr (ToolsResponse [tool_bar] [])"
    by (simp add: registry_defs filter_defs matcher_defs example_defs)
  have c: "callTool_outcome (example_world []) (example_client ''a'') ''foo'' [] = Inr ''called foo''"
    by (simp add: example_world_def)
  from callTool_ignores_filters [OF h, of "example_world []" "''foo''" "[]"] h l c
  show ?thesis by simp
qed

lemma connectToServer_globalFilters:
  "globalFilters (snd (connectToServer w m serverName params)) = globalFilters m"
  by (simp add: connectToServer_def Let_def split: option.splits)

lemma loadEntry_globalFilters: "globalFilters (loadEntry w m entry) = globalFilters m"
  by (simp add: loadEntry_def Let_def connectToServer_globalFilters split: option.splits)

lemma loadEntries_globalFilters: "globalFilters (loadEntries w m serverEntries) = globalFilters m"
  by (induction serverEntries arbitrary: m) (simp_all add: loadEntry_globalFilters)

lemma loadFromConfig_globalFilters:
  assumes "resolvePath m cp = Some path" and "readConfig w path = Inr config"
  shows "fst (loadFromConfig w m cp) = Inr ()"
    and "globalFilters (snd (loadFromConfig w m cp))
           = (case config_globalFilters config of Some g \<Rightarrow> Some g | None \<Rightarrow> globalFilters m)"
  using assms
  by (simp_all add: loadFromConfig_def Let_def loadEntries_globalFilters split: option.splits)

text \<open>
  Claim C10. When \<^verbatim>\<open>loadFromConfig\<close> has read a configuration document, the global
  filters of the manager are those of the document if it has any, and the previous ones
  otherwise. This also holds for the load started by the constructor: global filters
  given in the options are replaced by those of the document, not merged with them.
\<close>

theorem config_globalFilters_replace:
  "(resolvePath m cp = Some path \<and> readConfig w path = Inr config
      \<longrightarrow> fst (loadFromConfig w m cp) = Inr ()
        \<and> globalFilters (snd (loadFromConfig w m cp))
            = (case config_globalFilters config of Some g \<Rightarrow> Some g | None \<Rightarrow> globalFilters m))
   \<and> (options_autoLoad opts = Some True
        \<and> (if truthy (options_configPath opts) then options_configPath opts else findConfigPath w)
            = Some path
        \<and> path \<noteq> [] \<and> readConfig w path = Inr config
      \<longrightarrow> globalFilters (new_McpServerManager w (Some opts))
            = (case config_globalFilters config of
                 Some g \<Rightarrow> Some g
               | None \<Rightarrow> options_globalFilters opts))"
proof (intro conjI impI)
  assume a: "resolvePath m cp = Some path \<and> readConfig w path = Inr config"
  then show "fst (loadFromConfig w m cp) = Inr ()"
    using loadFromConfig_globalFilters(1) by blast
  from a show "globalFilters (snd (loadFromConfig w m cp))
            = (case config_globalFilters config of Some g \<Rightarrow> Some g | None \<Rightarrow> globalFilters m)"
    using loadFromConfig_globalFilters(2) by blast
next
  assume a: "options_autoLoad opts = Some True
        \<and> (if truthy (options_configPath opts) then options_configPath opts else findConfigPath w)
            = Some path
        \<and> path \<noteq> [] \<and> readConfig w path = Inr config"
  let ?m = "\<lparr>clients = [], configPath = Some path, serverFilters = [],
             globalFilters = options_globalFilters opts\<rparr>"
  have r: "resolvePath ?m (Some path) = Some path"
    using a by (simp add: resolvePath_def truthy_def)
  have n: "new_McpServerManager w (Some opts) = snd (loadFromConfig w ?m (Some path))"
    using a by (simp add: new_McpServerManager_def Let_def) (simp add: truthy_def)
  from a have rc: "readConfig w path = Inr config" by simp
  show "globalFilters (new_McpServerManager w (Some opts))
            = (case config_globalFilters config of
                 Some g \<Rightarrow> Some g
               | None \<Rightarrow> options_globalFilters opts)"
    using loadFromConfig_globalFilters(2) [OF r rc] n by (simp split: option.splits)
qed

text \<open>
  The manager is constructed with global filters that include only \<open>foo\<close>. Loading
  \<open>hub.json\<close>, whose global filters exclude \<open>foo\<close>, leaves just the exclusion; loading
  \<open>plain.json\<close>, which has no global filters, keeps the ones of the options.
\<close>

theorem config_globalFilters_replace_witness:
  "readConfig (example_world []) ''hub.json'' = Inr example_config
   \<and> config_globalFilters example_config = Some exclude_foo
   \<and> globalFilters (new_McpServerManager (example_world []) (Some (startup_options ''hub.json'')))
       = Some exclude_foo
   \<and> readConfig (example_world []) ''plain.json'' = Inr plain_config
   \<and> config_globalFilters plain_config = None
   \<and> globalFilters (new_McpServerManager (example_world []) (Some (startup_options ''plain.json'')))
       = Some include_foo
   \<and> resolvePath empty_manager (Some ''hub.json'') = Some ''hub.json''
   \<and> globalFilters (snd (loadFromConfig (example_world []) empty_manager (Some ''hub.json'')))
       = Some exclude_foo"
proof -
  let ?w = "example_world []"
  have r1: "readConfig ?w ''hub.json'' = Inr example_config"
    by (simp add: example_world_def)
  have r2: "readConfig ?w ''plain.json'' = Inr plain_config"
    by (simp add: example_world_def)
  have g1: "config_globalFilters example_config = Some exclude_foo"
    by (simp add: example_config_def)
  have g2: "config_globalFilters plain_config = None"
    by (simp add: plain_config_def)
  have p: "resolvePath empty_manager (Some ''hub.json'') = Some ''hub.json''"
    by (simp add: resolvePath_def truthy_def)
  have o: "options_autoLoad (startup_options q) = Some True"
     "options_configPath (startup_options q) = Some q"
     "options_globalFilters (startup_options q) = Some include_foo" for q
    by (simp_all add: startup_options_def)
  from config_globalFilters_replace [of empty_manager "Some ''hub.json''" "''hub.json''" ?w
         example_config "startup_options ''hub.json''"]
       config_globalFilters_replace [of empty_manager "Some ''plain.json''" "''plain.json''" ?w
         plain_config "startup_options ''plain.json''"]
       r1 r2 g1 g2 p o
  show ?thesis by (simp add: truthy_def)
qed

end
